theory Spec2Isabelle
  imports Complex_Main "HOL-Library.Word"
begin

unbundle bit_operations_syntax

section \<open>JavaScript values\<close>

text \<open>
  A JavaScript string is a sequence of UTF-16 code units; \<open>charCodeAt\<close> reads one of
  them, a number from 0 to 65535.
\<close>

type_synonym js_string = "16 word list"

definition ascii :: "string \<Rightarrow> js_string" where
  "ascii cs = map (\<lambda>c. of_nat (of_char c)) cs"

text \<open>
  \<open>s.charCodeAt(i)\<close>: the code unit at index \<open>i\<close>, and \<open>NaN\<close> (here \<open>None\<close>) when
  the index is out of range.
\<close>

definition charCodeAt :: "js_string \<Rightarrow> nat \<Rightarrow> int option" where
  "charCodeAt s i = (if i < length s then Some (uint (s ! i)) else None)"

subsection \<open>32-bit integer operators on numbers with an integral value\<close>

text \<open>
  The hash of \<open>generateDailyNumber\<close> is a JavaScript number whose value is always an
  integer far below \<open>2^53\<close> in magnitude, so it is modelled by its value, an \<open>int\<close>
  (see \<open>hash_body_exact\<close> below). The operators \<open><<\<close> and \<open>&\<close> convert their operands
  with ToInt32 (the value modulo \<open>2^32\<close>, read as two's complement) and return a
  signed 32-bit result; the shift count is taken modulo 32.
\<close>

definition to_int32 :: "int \<Rightarrow> 32 word" where
  "to_int32 x = word_of_int x"

definition shift_left :: "int \<Rightarrow> int \<Rightarrow> int" where
  "shift_left a n = sint (push_bit (nat (n mod 32)) (to_int32 a))"

definition bit_and :: "int \<Rightarrow> int \<Rightarrow> int" where
  "bit_and a b = sint (to_int32 a AND to_int32 b)"

text \<open>\<open>a % b\<close> on integral numbers: the remainder takes the sign of the dividend.\<close>

definition js_rem :: "int \<Rightarrow> int \<Rightarrow> int" where
  "js_rem a b = sgn a * (\<bar>a\<bar> mod \<bar>b\<bar>)"

section \<open>generateDailyNumber\<close>

text \<open>
  The body of the loop, for the hash so far and the value of \<open>charCodeAt\<close>:
  \<^verbatim>\<open>hash = ((hash << 5) - hash) + char; hash = hash & hash;\<close>
  With \<open>char = NaN\<close> the sum is \<open>NaN\<close>, and \<open>NaN & NaN\<close> is 0.
\<close>

definition hash_body :: "int \<Rightarrow> int option \<Rightarrow> int" where
  "hash_body hash char =
     (case char of
        None \<Rightarrow> 0
      | Some c \<Rightarrow> (let hash1 = (shift_left hash 5 - hash) + c in bit_and hash1 hash1))"

text \<open>\<^verbatim>\<open>for (let i = 0; i < dateString.length; i++) { ... }\<close>, from index \<open>i\<close> on.\<close>

function hash_loop :: "js_string \<Rightarrow> nat \<Rightarrow> int \<Rightarrow> int" where
  "hash_loop dateString i hash =
     (if i < length dateString
      then hash_loop dateString (i + 1) (hash_body hash (charCodeAt dateString i))
      else hash)"
  by pat_completeness auto
termination
  by (relation "measure (\<lambda>(dateString, i, hash). length dateString - i)") auto

declare hash_loop.simps [simp del]

definition generateDailyNumber :: "js_string \<Rightarrow> int" where
  "generateDailyNumber dateString =
     (let hash = hash_loop dateString 0 0 in \<bar>js_rem hash 100\<bar> + 1)"

text \<open>
  The same call as a transition system over the variables of the loop, \<open>i\<close> and
  \<open>hash\<close>: \<open>for_loop s i hash final\<close> holds when the loop, entered at index \<open>i\<close> with
  \<open>hash\<close>, leaves with \<open>final\<close>; \<open>generateDailyNumber_returns s r\<close> when the call
  on \<open>s\<close> returns \<open>r\<close>. The function has no \<^verbatim>\<open>throw\<close> and calls nothing that throws
  on a string, so returning is the only outcome there is a rule for.
\<close>

inductive for_loop :: "js_string \<Rightarrow> nat \<Rightarrow> int \<Rightarrow> int \<Rightarrow> bool" where
  leave: "\<not> i < length dateString \<Longrightarrow> for_loop dateString i hash hash"
| iterate: "i < length dateString \<Longrightarrow>
     for_loop dateString (i + 1) (hash_body hash (charCodeAt dateString i)) final \<Longrightarrow>
     for_loop dateString i hash final"

inductive generateDailyNumber_returns :: "js_string \<Rightarrow> int \<Rightarrow> bool" where
  returns: "for_loop dateString 0 0 hash \<Longrightarrow>
     generateDailyNumber_returns dateString (\<bar>js_rem hash 100\<bar> + 1)"

code_pred for_loop .

code_pred generateDailyNumber_returns .

subsection \<open>The generator as the specification words it\<close>

text \<open>
  The specification's \<open>computeDailyValue(dateKey, rangeMin, rangeMax)\<close>: the recurrence
  \<open>hash = (hash * 31 + charCode) mod 2^32\<close>, read as a signed 32-bit integer, from 0;
  then \<open>abs(hash) mod (rangeMax - rangeMin + 1) + rangeMin\<close>. These three definitions
  follow the specification, not the code.
\<close>

definition spec_signed32 :: "int \<Rightarrow> int" where
  "spec_signed32 x = (let m = x mod 2 ^ 32 in if m < 2 ^ 31 then m else m - 2 ^ 32)"

fun spec_hash :: "int \<Rightarrow> js_string \<Rightarrow> int" where
  "spec_hash hash [] = hash"
| "spec_hash hash (c # cs) = spec_hash (spec_signed32 ((hash * 31 + uint c) mod 2 ^ 32)) cs"

definition computeDailyValue :: "js_string \<Rightarrow> int \<Rightarrow> int \<Rightarrow> int" where
  "computeDailyValue dateKey rangeMin rangeMax =
     \<bar>spec_hash 0 dateKey\<bar> mod (rangeMax - rangeMin + 1) + rangeMin"

section \<open>Request and response values\<close>

text \<open>
  A number is a double. The handlers only test and compare the numbers they are
  sent, so a finite number is modelled by its exact value, a rational; every finite
  double is one.
\<close>

datatype js_number = NaN | Finite rat | PosInfinity | NegInfinity

datatype js_value =
    Undefined
  | Null
  | Boolean bool
  | Number js_number
  | Str js_string
  | Array "js_value list"
  | Object "(string \<times> js_value) list"

definition num :: "int \<Rightarrow> js_value" where
  "num i = Number (Finite (of_int i))"

text \<open>ToBoolean, which \<open>!x\<close>, \<open>x || y\<close>, \<open>x ? a : b\<close> and \<open>filter(Boolean)\<close> apply.\<close>

fun truthy :: "js_value \<Rightarrow> bool" where
  "truthy Undefined = False"
| "truthy Null = False"
| "truthy (Boolean b) = b"
| "truthy (Number NaN) = False"
| "truthy (Number (Finite q)) = (q \<noteq> 0)"
| "truthy (Number PosInfinity) = True"
| "truthy (Number NegInfinity) = True"
| "truthy (Str s) = (s \<noteq> [])"
| "truthy (Array xs) = True"
| "truthy (Object kvs) = True"

fun typeof :: "js_value \<Rightarrow> string" where
  "typeof Undefined = ''undefined''"
| "typeof Null = ''object''"
| "typeof (Boolean b) = ''boolean''"
| "typeof (Number n) = ''number''"
| "typeof (Str s) = ''string''"
| "typeof (Array xs) = ''object''"
| "typeof (Object kvs) = ''object''"

text \<open>\<open>a === b\<close> and \<open>a < b\<close> on two numbers: \<open>NaN\<close> equals nothing and is below nothing.\<close>

fun strict_equals :: "js_number \<Rightarrow> js_number \<Rightarrow> bool" where
  "strict_equals (Finite a) (Finite b) = (a = b)"
| "strict_equals PosInfinity PosInfinity = True"
| "strict_equals NegInfinity NegInfinity = True"
| "strict_equals a b = False"

fun less_number :: "js_number \<Rightarrow> js_number \<Rightarrow> bool" where
  "less_number (Finite a) (Finite b) = (a < b)"
| "less_number NegInfinity (Finite b) = True"
| "less_number NegInfinity PosInfinity = True"
| "less_number (Finite a) PosInfinity = True"
| "less_number a b = False"

text \<open>\<open>obj.key\<close>, for reading a response: \<open>undefined\<close> when there is no such property.\<close>

fun property :: "string \<Rightarrow> js_value \<Rightarrow> js_value" where
  "property k (Object kvs) = (case map_of kvs k of Some v \<Rightarrow> v | None \<Rightarrow> Undefined)"
| "property k v = Undefined"


text \<open>\<open>Object.keys(obj)\<close>: the names of the properties of a response.\<close>

fun keys :: "js_value \<Rightarrow> string list" where
  "keys (Object kvs) = map fst kvs"
| "keys v = []"

text \<open>\<open>res.json(body)\<close> answers with status 200, \<open>res.status(n).json(body)\<close> with \<open>n\<close>.\<close>

record response =
  status :: nat
  json :: js_value

definition res_json :: "js_value \<Rightarrow> response" where
  "res_json body = \<lparr>status = 200, json = body\<rparr>"

definition res_status_json :: "nat \<Rightarrow> js_value \<Rightarrow> response" where
  "res_status_json n body = \<lparr>status = n, json = body\<rparr>"

text \<open>
  \<^verbatim>\<open>date || new Date().toISOString().split('T')[0]\<close>: the \<open>date\<close> of the request body
  when it is there and not empty, the day of the server's clock otherwise. The body's
  \<open>date\<close> is modelled at the type the interface gives it, an optional string, and the
  day of the clock is an argument of each handler.
\<close>

definition date_or :: "js_string option \<Rightarrow> js_string \<Rightarrow> js_string" where
  "date_or body_date today =
     (case body_date of None \<Rightarrow> today | Some d \<Rightarrow> if d \<noteq> [] then d else today)"

section \<open>The routes\<close>

text \<open>
  Each handler that can call \<open>generateDailyNumber\<close> returns, beside its response, the
  list of the date keys it called it on.
\<close>

subsection \<open>GET /daily-challenge\<close>

text \<open>
  The handler computes \<open>secretNumber\<close> and answers without it. The generator is an
  argument here, so that the response can be compared under two generators; the route
  itself is the instance at \<open>generateDailyNumber\<close>.
\<close>

definition get_daily_challenge_with ::
  "(js_string \<Rightarrow> int) \<Rightarrow> js_string \<Rightarrow> response \<times> js_string list" where
  "get_daily_challenge_with generator today =
     (let secretNumber = generator today in
      (res_json (Object
         [(''date'', Str today),
          (''hint'', Str (ascii ''The number is between 1 and 100'')),
          (''range'', Object [(''min'', num 1), (''max'', num 100)])]),
       [today]))"

definition get_daily_challenge :: "js_string \<Rightarrow> response \<times> js_string list" where
  "get_daily_challenge today = get_daily_challenge_with generateDailyNumber today"

subsection \<open>POST /guess\<close>

text \<open>
  \<open>body_guess\<close> and \<open>body_date\<close> are the \<open>guess\<close> and \<open>date\<close> of the request body
  (\<open>Undefined\<close> and \<open>None\<close> when missing). Past the guard \<open>guess\<close> is a number; the last
  case is never reached.
\<close>

definition post_guess ::
  "js_string \<Rightarrow> js_value \<Rightarrow> js_string option \<Rightarrow> response \<times> js_string list" where
  "post_guess today body_guess body_date =
     (if \<not> truthy body_guess \<or> typeof body_guess \<noteq> ''number''
      then (res_status_json 400 (Object [(''error'', Str (ascii ''Invalid guess''))]), [])
      else
        (case body_guess of
           Number guess \<Rightarrow>
             (let targetDate = date_or body_date today;
                  secretNumber = generateDailyNumber targetDate;
                  result =
                    (if strict_equals guess (Finite (of_int secretNumber)) then ''correct''
                     else if less_number guess (Finite (of_int secretNumber)) then ''higher''
                     else ''lower'')
              in (res_json (Object
                    [(''guess'', body_guess),
                     (''result'', Str (ascii result)),
                     (''date'', Str targetDate)]),
                  [targetDate]))
         | _ \<Rightarrow>
             (res_status_json 400 (Object [(''error'', Str (ascii ''Invalid guess''))]), [])))"

subsection \<open>The table daily\_number\_scores\<close>

text \<open>
  The columns the routes read and write, from the migration:
  \<^verbatim>\<open>user_id INTEGER, date TEXT NOT NULL, attempts INTEGER NOT NULL,
  won INTEGER NOT NULL DEFAULT 0\<close>
  (\<open>id\<close> and \<open>created_at\<close>, which the engine fills in and no route reads, are left
  out). \<open>user_id\<close> is the \<open>id\<close> of the authenticated user, \<open>won\<close> is 0 or 1, and the
  \<open>attempts\<close> cell holds the value the engine stored, as a query reads it back. Rows
  are kept in insertion order, and \<open>ORDER BY\<close> sorts by a total order on the stored
  values, which is an argument of the query.
\<close>

record score_row =
  user_id :: int
  date :: js_string
  attempts :: js_value
  won :: int

type_synonym scores_table = "score_row list"

datatype db_error = CannotBind | NotNullConstraint

text \<open>
  \<^verbatim>\<open>context.db.get('SELECT id FROM daily_number_scores WHERE user_id = ? AND date = ?', ...)\<close>:
  the first matching row, or \<open>undefined\<close> (here \<open>None\<close>).
\<close>

definition db_get_existing :: "scores_table \<Rightarrow> int \<Rightarrow> js_string \<Rightarrow> score_row option" where
  "db_get_existing table uid day = find (\<lambda>r. user_id r = uid \<and> date r = day) table"

text \<open>
  What becomes of the parameter bound for the column \<open>attempts INTEGER NOT NULL\<close>.
  The driver binds numbers, strings and \<open>null\<close>, a missing parameter as \<open>null\<close>, and
  refuses a boolean, an array or an object with an exception. A \<open>NULL\<close>, which
  is also what the engine makes of \<open>NaN\<close>, violates \<open>NOT NULL\<close>. A number is
  stored with its value. A text goes through the \<open>INTEGER\<close> affinity of the column,
  which stores the text of a numeric literal as that number and any other text as
  it is: this conversion is the engine's and is an argument, \<open>text_affinity\<close>.
\<close>

fun bind_attempts :: "(js_string \<Rightarrow> js_value) \<Rightarrow> js_value \<Rightarrow> db_error + js_value" where
  "bind_attempts text_affinity Undefined = Inl NotNullConstraint"
| "bind_attempts text_affinity Null = Inl NotNullConstraint"
| "bind_attempts text_affinity (Boolean b) = Inl CannotBind"
| "bind_attempts text_affinity (Number NaN) = Inl NotNullConstraint"
| "bind_attempts text_affinity (Number (Finite q)) = Inr (Number (Finite q))"
| "bind_attempts text_affinity (Number PosInfinity) = Inr (Number PosInfinity)"
| "bind_attempts text_affinity (Number NegInfinity) = Inr (Number NegInfinity)"
| "bind_attempts text_affinity (Str s) = Inr (text_affinity s)"
| "bind_attempts text_affinity (Array xs) = Inl CannotBind"
| "bind_attempts text_affinity (Object kvs) = Inl CannotBind"

text \<open>
  \<^verbatim>\<open>context.db.run('INSERT INTO daily_number_scores (user_id, date, attempts, won) VALUES (?, ?, ?, ?)', ...)\<close>
\<close>

definition db_run_insert ::
  "(js_string \<Rightarrow> js_value) \<Rightarrow> scores_table \<Rightarrow> int \<Rightarrow> js_string \<Rightarrow> js_value \<Rightarrow> int
     \<Rightarrow> db_error + scores_table" where
  "db_run_insert text_affinity table uid day att w =
     (case bind_attempts text_affinity att of
        Inl e \<Rightarrow> Inl e
      | Inr stored \<Rightarrow> Inr (table @ [\<lparr>user_id = uid, date = day, attempts = stored, won = w\<rparr>]))"


subsection \<open>POST /submit-score\<close>

text \<open>
  The route is behind \<open>context.requireAuth\<close>: the handler runs for an authenticated
  user, whose \<open>id\<close> is \<open>uid\<close>. An exception of \<open>context.db.run\<close> leaves the handler.
  The body's \<open>attempts\<close> and \<open>won\<close> are any values: the handler does not look at them.
\<close>

datatype outcome = Responded response | Threw db_error

definition post_submit_score ::
  "(js_string \<Rightarrow> js_value) \<Rightarrow> js_string \<Rightarrow> int \<Rightarrow> js_value \<Rightarrow> js_value \<Rightarrow> js_string option
     \<Rightarrow> scores_table \<Rightarrow> outcome \<times> scores_table" where
  "post_submit_score text_affinity clock_day uid body_attempts body_won body_date table =
     (let today = date_or body_date clock_day;
          existing = db_get_existing table uid today
      in if existing \<noteq> None
         then (Responded (res_status_json 400
                 (Object [(''error'', Str (ascii ''Already submitted for today''))])), table)
         else
           (case db_run_insert text_affinity table uid today body_attempts
                   (if truthy body_won then 1 else 0) of
              Inl e \<Rightarrow> (Threw e, table)
            | Inr table' \<Rightarrow> (Responded (res_json (Object [(''success'', Boolean True)])), table')))"

subsection \<open>GET /leaderboard\<close>


subsection \<open>A table to run the leaderboard on\<close>



section \<open>The arithmetic of the hash\<close>

text \<open>ToInt32 of an integral value, read back as a signed integer, in closed form.\<close>

lemma signed_wrap:
  fixes x m :: int
  assumes "0 < m"
  shows "(x + m) mod (2 * m) - m =
         (if x mod (2 * m) < m then x mod (2 * m) else x mod (2 * m) - 2 * m)"
proof -
  define r where "r = x mod (2 * m)"
  have r: "0 \<le> r" "r < 2 * m"
    using assms by (simp_all add: r_def)
  have eq: "(x + m) mod (2 * m) = (r + m) mod (2 * m)"
    by (simp add: r_def mod_add_left_eq)
  show ?thesis
  proof (cases "r < m")
    case True
    then have "(r + m) mod (2 * m) = r + m"
      using r by (intro mod_pos_pos_trivial) linarith+
    with True eq show ?thesis by (simp add: r_def)
  next
    case False
    have "(r + m) mod (2 * m) = (r + m - 2 * m) mod (2 * m)"
      by (rule minus_mod_self2 [symmetric])
    also have "\<dots> = r + m - 2 * m"
      using r False by (intro mod_pos_pos_trivial) linarith+
    finally show ?thesis using False eq by (simp add: r_def)
  qed
qed

lemma sint_to_int32: "sint (to_int32 x) = spec_signed32 x"
proof -
  have "sint (word_of_int x :: 32 word) = (x + 2 ^ 31) mod 2 ^ 32 - 2 ^ 31"
    by (simp add: int_word_sint)
  also have "\<dots> = (x + 2147483648) mod (2 * 2147483648) - 2147483648"
    by simp
  also have "\<dots> = (if x mod (2 * 2147483648) < 2147483648 then x mod (2 * 2147483648)
                     else x mod (2 * 2147483648) - 2 * 2147483648)"
    by (rule signed_wrap) simp
  finally show ?thesis
    by (simp add: to_int32_def spec_signed32_def Let_def)
qed

lemma spec_signed32_mod: "spec_signed32 (x mod 4294967296) = spec_signed32 x"
  by (simp add: spec_signed32_def)

lemma sint32_bounds: "- 2147483648 \<le> sint (w :: 32 word) \<and> sint w < 2147483648"
  using sint_ge [of w] sint_lt [of w] by simp

text \<open>One round of the loop is \<open>31 * hash + char\<close>, wrapped to 32 bits.\<close>

lemma hash_body_Some: "hash_body h (Some c) = sint (to_int32 (31 * h + c))"
proof -
  have "to_int32 (sint (push_bit 5 (to_int32 h)) - h + c) = to_int32 (31 * h + c)"
    by (simp add: to_int32_def push_bit_eq_mult)
  then show ?thesis
    by (simp add: hash_body_def shift_left_def bit_and_def Let_def)
qed

lemma hash_body_spec:
  "hash_body h (Some c) = spec_signed32 ((h * 31 + c) mod 2 ^ 32)"
  by (simp add: hash_body_Some sint_to_int32 spec_signed32_mod mult.commute)

text \<open>
  The hash stays a signed 32-bit integer, a code unit is below \<open>2^16\<close>, and so the
  sum inside the loop is far below \<open>2^53\<close>: the doubles of the code hold every value
  exactly, as the model by \<open>int\<close> takes for granted.
\<close>

lemma hash_body_int32:
  "- 2147483648 \<le> hash_body hash char \<and> hash_body hash char < 2147483648"
  by (cases char) (simp_all add: hash_body_def bit_and_def Let_def sint32_bounds)

lemma charCodeAt_range:
  "charCodeAt s i = Some c \<Longrightarrow> 0 \<le> c \<and> c < 65536"
proof -
  assume "charCodeAt s i = Some c"
  then have c: "c = uint (s ! i)"
    by (simp add: charCodeAt_def split: if_splits)
  have "uint (s ! i) < 2 ^ LENGTH(16)"
    by (rule uint_lt2p)
  then show ?thesis by (simp add: c)
qed

lemma hash_body_exact:
  assumes "- 2147483648 \<le> hash" "hash < 2147483648" "0 \<le> c" "c < 65536"
  shows "\<bar>(shift_left hash 5 - hash) + c\<bar> < 2 ^ 53"
proof -
  have "- 2147483648 \<le> shift_left hash 5 \<and> shift_left hash 5 < 2147483648"
    unfolding shift_left_def by (rule sint32_bounds)
  with assms show ?thesis by (simp add: abs_less_iff)
qed

lemma abs_js_rem: "\<bar>js_rem h 100\<bar> = \<bar>h\<bar> mod 100"
  by (cases "h = 0") (simp_all add: js_rem_def abs_mult)

section \<open>The loop\<close>

lemma hash_loop_step:
  "i < length s \<Longrightarrow> hash_loop s i h = hash_loop s (i + 1) (hash_body h (charCodeAt s i))"
  by (subst hash_loop.simps) simp

lemma hash_loop_end: "\<not> i < length s \<Longrightarrow> hash_loop s i h = h"
  by (subst hash_loop.simps) simp

text \<open>From index \<open>i\<close> on, the loop folds the specification's recurrence over the rest.\<close>

lemma hash_loop_drop: "hash_loop s i h = spec_hash h (drop i s)"
proof (induction s i h rule: hash_loop.induct)
  case (1 s i h)
  show ?case
  proof (cases "i < length s")
    case True
    then have d: "drop i s = s ! i # drop (i + 1) s"
      by (simp add: Cons_nth_drop_Suc)
    from True have "hash_loop s i h = hash_loop s (i + 1) (hash_body h (charCodeAt s i))"
      by (rule hash_loop_step)
    also have "\<dots> = spec_hash (hash_body h (charCodeAt s i)) (drop (i + 1) s)"
      using True by (rule "1.IH")
    also have "\<dots> = spec_hash h (drop i s)"
      using True by (simp add: d charCodeAt_def hash_body_spec)
    finally show ?thesis .
  next
    case False
    then show ?thesis by (simp add: hash_loop_end)
  qed
qed

text \<open>The transition system and the function agree.\<close>

lemma for_loop_hash_loop: "for_loop s i h (hash_loop s i h)"
proof (induction s i h rule: hash_loop.induct)
  case (1 s i h)
  show ?case
  proof (cases "i < length s")
    case True
    with "1.IH" show ?thesis
      by (simp add: hash_loop_step for_loop.iterate)
  next
    case False
    then show ?thesis
      by (simp add: hash_loop_end for_loop.leave)
  qed
qed

lemma for_loop_unique: "for_loop s i h r \<Longrightarrow> r = hash_loop s i h"
  by (induction rule: for_loop.induct) (simp_all add: hash_loop_step hash_loop_end)

lemma returns_value: "generateDailyNumber_returns s (generateDailyNumber s)"
  unfolding generateDailyNumber_def Let_def
  by (rule generateDailyNumber_returns.returns) (rule for_loop_hash_loop)

lemma returns_unique: "generateDailyNumber_returns s r \<Longrightarrow> r = generateDailyNumber s"
  by (induction rule: generateDailyNumber_returns.induct)
     (simp add: generateDailyNumber_def for_loop_unique [symmetric])

section \<open>Values of the generator\<close>

lemma generateDailyNumber_bounds:
  "1 \<le> generateDailyNumber s \<and> generateDailyNumber s \<le> 100"
proof -
  have "0 \<le> \<bar>hash_loop s 0 0\<bar> mod 100" "\<bar>hash_loop s 0 0\<bar> mod 100 < 100"
    by simp_all
  then show ?thesis
    by (simp add: generateDailyNumber_def abs_js_rem)
qed

lemma generateDailyNumber_empty: "generateDailyNumber [] = 1"
  by (simp add: generateDailyNumber_def hash_loop_end js_rem_def)

lemma generateDailyNumber_2024_01_01: "generateDailyNumber (ascii ''2024-01-01'') = 33"
  by code_simp

text \<open>A string whose hash is the most negative 32-bit integer.\<close>

lemma hash_most_negative: "hash_loop (ascii ''xfjfxtf'') 0 0 = - (2 ^ 31)"
  by code_simp

lemma generateDailyNumber_most_negative: "generateDailyNumber (ascii ''xfjfxtf'') = 49"
  by code_simp

section \<open>Claims about the generator\<close>

text \<open>
  C1. For every string, \<open>generateDailyNumber\<close> returns an integer from 1 to 100, both
  included: so it does for the empty string, where it returns 1, and for a string
  whose hash is \<open>-2^31\<close>, the 32-bit integer of largest magnitude, where it returns 49.
\<close>

theorem generateDailyNumber_range:
  "1 \<le> generateDailyNumber s \<and> generateDailyNumber s \<le> 100
   \<and> generateDailyNumber [] = 1
   \<and> hash_loop (ascii ''xfjfxtf'') 0 0 = - (2 ^ 31)
   \<and> generateDailyNumber (ascii ''xfjfxtf'') = 49"
  using generateDailyNumber_bounds [of s] generateDailyNumber_empty hash_most_negative
    generateDailyNumber_most_negative
  by simp

text \<open>
  C2. For every date key, \<open>generateDailyNumber\<close> returns what the specification's
  reference computes for the range 1 to 100: the fold of
  \<open>hash = (hash * 31 + charCode) mod 2^32\<close>, read as a signed 32-bit integer, from 0,
  then \<open>abs(hash) mod (100 - 1 + 1) + 1\<close>. One round of the code's loop,
  \<open>((hash << 5) - hash) + char\<close> then \<open>hash & hash\<close>, is one step of that recurrence,
  and \<open>Math.abs(hash % 100) + 1\<close> is \<open>abs(hash) mod 100 + 1\<close>.
\<close>

theorem generateDailyNumber_refines_spec:
  "generateDailyNumber dateKey = computeDailyValue dateKey 1 100
   \<and> hash_body hash (Some c) = spec_signed32 ((hash * 31 + c) mod 2 ^ 32)
   \<and> \<bar>js_rem hash 100\<bar> + 1 = \<bar>hash\<bar> mod (100 - 1 + 1) + 1"
  by (simp add: generateDailyNumber_def computeDailyValue_def hash_loop_drop abs_js_rem
      hash_body_spec)

text \<open>
  C9 says that the generator rejects an empty or malformed date key. It does not:
  called on the empty string, it returns 1.
\<close>

theorem generateDailyNumber_empty_returns: "generateDailyNumber_returns [] 1"
  using returns_value [of "[]"] by (simp add: generateDailyNumber_empty)

text \<open>
  C9, amended. The generator checks nothing and rejects nothing: on every string,
  empty or malformed as a date as it may be, the call returns, and returns an integer
  from 1 to 100; on the empty string that integer is 1.
\<close>

theorem generateDailyNumber_never_rejects:
  "(\<exists>r. generateDailyNumber_returns s r \<and> 1 \<le> r \<and> r \<le> 100) \<and> generateDailyNumber [] = 1"
  using returns_value [of s] generateDailyNumber_bounds [of s] generateDailyNumber_empty
  by blast

theorem generateDailyNumber_never_rejects_witness:
  "(\<exists>r. generateDailyNumber_returns (ascii ''not-a-date'') r \<and> 1 \<le> r \<and> r \<le> 100)
   \<and> generateDailyNumber [] = 1"
  by (rule generateDailyNumber_never_rejects)

section \<open>Facts about the request values\<close>

lemma ascii_results:
  "ascii ''correct'' \<noteq> ascii ''higher''" "ascii ''correct'' \<noteq> ascii ''lower''"
  "ascii ''higher'' \<noteq> ascii ''lower''"
  "ascii ''higher'' \<noteq> ascii ''correct''" "ascii ''lower'' \<noteq> ascii ''correct''"
  "ascii ''lower'' \<noteq> ascii ''higher''"
  by (simp_all add: ascii_def)

lemma ascii_date_nonempty: "ascii ''2024-01-01'' \<noteq> []"
  by (simp add: ascii_def)

lemma date_or_Some: "d \<noteq> [] \<Longrightarrow> date_or (Some d) today = d"
  by (simp add: date_or_def)

lemma date_or_None: "date_or None today = today"
  by (simp add: date_or_def)

lemma truthy_number: "truthy (Number n) \<longleftrightarrow> n \<noteq> NaN \<and> n \<noteq> Finite 0"
  by (cases n) simp_all

text \<open>A number that is not \<open>NaN\<close> is equal to, below or above a finite number, and only one of these.\<close>

lemma number_trichotomy:
  assumes "truthy (Number g)"
  shows "(strict_equals g (Finite s) \<longrightarrow> \<not> less_number g (Finite s) \<and> \<not> less_number (Finite s) g)
       \<and> (less_number g (Finite s) \<longrightarrow> \<not> less_number (Finite s) g)
       \<and> (strict_equals g (Finite s) \<or> less_number g (Finite s) \<or> less_number (Finite s) g)"
  using assms by (cases g) auto

section \<open>GET /daily-challenge\<close>

text \<open>
  C5. The response of \<open>GET /daily-challenge\<close> does not depend on the secret: it is the
  same under any two generators; its properties are \<open>date\<close>, \<open>hint\<close> and \<open>range\<close>
  and no other; \<open>date\<close> is the day asked for, \<open>hint\<close> is the constant text
  \<open>The number is between 1 and 100\<close> and \<open>range\<close> is \<open>{min: 1, max: 100}\<close>, so that
  for any two dates the hint and the range are the same.
\<close>

theorem daily_challenge_hides_secret:
  "fst (get_daily_challenge_with generator d) = fst (get_daily_challenge_with generator' d)
   \<and> keys (json (fst (get_daily_challenge d))) = [''date'', ''hint'', ''range'']
   \<and> property ''date'' (json (fst (get_daily_challenge d))) = Str d
   \<and> property ''hint'' (json (fst (get_daily_challenge d))) =
       Str (ascii ''The number is between 1 and 100'')
   \<and> property ''range'' (json (fst (get_daily_challenge d))) =
       Object [(''min'', num 1), (''max'', num 100)]
   \<and> property ''hint'' (json (fst (get_daily_challenge d))) =
       property ''hint'' (json (fst (get_daily_challenge d')))
   \<and> property ''range'' (json (fst (get_daily_challenge d))) =
       property ''range'' (json (fst (get_daily_challenge d')))"
  by (simp add: get_daily_challenge_def get_daily_challenge_with_def res_json_def)

section \<open>POST /guess\<close>

text \<open>The two branches of the handler: the guard fails, the guard passes.\<close>

lemma post_guess_invalid:
  "\<not> truthy g \<or> typeof g \<noteq> ''number'' \<Longrightarrow>
   post_guess today g body_date =
     (res_status_json 400 (Object [(''error'', Str (ascii ''Invalid guess''))]), [])"
  by (auto simp add: post_guess_def)

lemma post_guess_valid:
  assumes "truthy (Number g)"
  shows "post_guess today (Number g) body_date =
     (res_json (Object
        [(''guess'', Number g),
         (''result'', Str (ascii
            (if strict_equals g (Finite (of_int (generateDailyNumber (date_or body_date today))))
             then ''correct''
             else if less_number g (Finite (of_int (generateDailyNumber (date_or body_date today))))
             then ''higher'' else ''lower''))),
         (''date'', Str (date_or body_date today))]),
      [date_or body_date today])"
  using assms by (simp add: post_guess_def Let_def)

text \<open>
  C4. For a valid numeric guess (a number that passes the guard) and the date key
  used, which is the \<open>date\<close> of the body when it is given and not empty and the day of
  the clock otherwise, the handler answers with status 200, echoes the guess and the
  date used, and its \<open>result\<close> is \<open>correct\<close> exactly when the guess equals
  \<open>generateDailyNumber\<close> of that date, \<open>higher\<close> exactly when the guess is below it,
  and \<open>lower\<close> exactly when the guess is above it.
\<close>

theorem post_guess_compares_with_secret:
  assumes "truthy (Number g)"
  shows "let targetDate = date_or body_date today;
             secretNumber = Finite (of_int (generateDailyNumber targetDate));
             res = fst (post_guess today (Number g) body_date)
         in status res = 200
          \<and> property ''guess'' (json res) = Number g
          \<and> property ''date'' (json res) = Str targetDate
          \<and> (property ''result'' (json res) = Str (ascii ''correct'') \<longleftrightarrow> strict_equals g secretNumber)
          \<and> (property ''result'' (json res) = Str (ascii ''higher'') \<longleftrightarrow> less_number g secretNumber)
          \<and> (property ''result'' (json res) = Str (ascii ''lower'') \<longleftrightarrow> less_number secretNumber g)"
proof -
  define s :: rat where "s = of_int (generateDailyNumber (date_or body_date today))"
  note tri = number_trichotomy [OF assms, of s]
  show ?thesis
    unfolding Let_def post_guess_valid [OF assms] s_def [symmetric]
    using tri by (auto simp add: res_json_def ascii_results)
qed


theorem post_guess_compares_with_secret_witness:
  "truthy (Number (Finite 33))
   \<and> property ''result'' (json (fst (post_guess (ascii ''2024-06-01'') (Number (Finite 33))
        (Some (ascii ''2024-01-01''))))) = Str (ascii ''correct'')
   \<and> property ''result'' (json (fst (post_guess (ascii ''2024-06-01'') (Number (Finite 10))
        (Some (ascii ''2024-01-01''))))) = Str (ascii ''higher'')
   \<and> property ''result'' (json (fst (post_guess (ascii ''2024-06-01'') (Number (Finite 90))
        (Some (ascii ''2024-01-01''))))) = Str (ascii ''lower'')
   \<and> property ''date'' (json (fst (post_guess (ascii ''2024-06-01'') (Number (Finite 33))
        (Some (ascii ''2024-01-01''))))) = Str (ascii ''2024-01-01'')"
  using post_guess_compares_with_secret [of "Finite 33" "Some (ascii ''2024-01-01'')" "ascii ''2024-06-01''"]
    post_guess_compares_with_secret [of "Finite 10" "Some (ascii ''2024-01-01'')" "ascii ''2024-06-01''"]
    post_guess_compares_with_secret [of "Finite 90" "Some (ascii ''2024-01-01'')" "ascii ''2024-06-01''"]
  by (simp add: Let_def date_or_Some ascii_date_nonempty generateDailyNumber_2024_01_01)

text \<open>
  C8 says that a guess that is not an integer is refused with status 400 and that
  every integer guess passes the validation. Neither holds: the guess 3.5 is
  answered with status 200, after a call of the generator, and the integer guess 0 is
  refused with status 400.
\<close>

theorem post_guess_validation_counterexample:
  "status (fst (post_guess (ascii ''2024-01-01'') (Number (Finite (7 / 2))) None)) = 200
   \<and> snd (post_guess (ascii ''2024-01-01'') (Number (Finite (7 / 2))) None) = [ascii ''2024-01-01'']
   \<and> status (fst (post_guess (ascii ''2024-01-01'') (num 0) None)) = 400"
  by (simp add: post_guess_valid post_guess_invalid num_def res_json_def res_status_json_def
      date_or_None)

text \<open>
  C8, amended. The guard is \<^verbatim>\<open>!guess || typeof guess !== 'number'\<close>. A guess that is
  missing or is not of type number is answered with status 400 and \<open>Invalid guess\<close>
  without any call of \<open>generateDailyNumber\<close>; every number other than 0 and \<open>NaN\<close>,
  integer or not, passes the guard: it is answered with status 200 after one call of
  the generator, on the date used.
\<close>

theorem post_guess_validation:
  "(typeof g \<noteq> ''number'' \<longrightarrow>
      post_guess today g body_date =
        (res_status_json 400 (Object [(''error'', Str (ascii ''Invalid guess''))]), []))
   \<and> (g = Number n \<and> n \<noteq> NaN \<and> n \<noteq> Finite 0 \<longrightarrow>
      status (fst (post_guess today g body_date)) = 200
      \<and> snd (post_guess today g body_date) = [date_or body_date today])"
proof (intro conjI impI)
  assume "typeof g \<noteq> ''number''"
  then show "post_guess today g body_date =
      (res_status_json 400 (Object [(''error'', Str (ascii ''Invalid guess''))]), [])"
    by (simp add: post_guess_invalid)
next
  assume v: "g = Number n \<and> n \<noteq> NaN \<and> n \<noteq> Finite 0"
  then have "truthy (Number n)" by (simp add: truthy_number)
  then have "post_guess today (Number n) body_date =
     (res_json (Object
        [(''guess'', Number n),
         (''result'', Str (ascii
            (if strict_equals n (Finite (of_int (generateDailyNumber (date_or body_date today))))
             then ''correct''
             else if less_number n (Finite (of_int (generateDailyNumber (date_or body_date today))))
             then ''higher'' else ''lower''))),
         (''date'', Str (date_or body_date today))]),
      [date_or body_date today])"
    by (rule post_guess_valid)
  with v show "status (fst (post_guess today g body_date)) = 200"
    by (simp add: res_json_def)
  from \<open>post_guess today (Number n) body_date = _\<close> v
  show "snd (post_guess today g body_date) = [date_or body_date today]"
    by simp
qed

theorem post_guess_validation_witness:
  "post_guess (ascii ''2024-01-01'') Undefined None =
      (res_status_json 400 (Object [(''error'', Str (ascii ''Invalid guess''))]), [])
   \<and> post_guess (ascii ''2024-01-01'') (Str (ascii ''50'')) None =
      (res_status_json 400 (Object [(''error'', Str (ascii ''Invalid guess''))]), [])
   \<and> status (fst (post_guess (ascii ''2024-01-01'') (Number (Finite 50)) None)) = 200
   \<and> snd (post_guess (ascii ''2024-01-01'') (Number (Finite 50)) None) = [ascii ''2024-01-01'']"
  using post_guess_validation [of Undefined "ascii ''2024-01-01''" None]
    post_guess_validation [of "Str (ascii ''50'')" "ascii ''2024-01-01''" None]
    post_guess_validation [of "Number (Finite 50)" "ascii ''2024-01-01''" None "Finite 50"]
  by (simp add: date_or_None)


section \<open>POST /submit-score\<close>

lemma db_get_existing_None:
  "db_get_existing table uid day = None \<longleftrightarrow> \<not> (\<exists>r \<in> set table. user_id r = uid \<and> date r = day)"
  by (auto simp add: db_get_existing_def find_None_iff)

lemma post_submit_score_duplicate:
  assumes "\<exists>r \<in> set table. user_id r = uid \<and> date r = date_or body_date clock_day"
  shows "post_submit_score text_affinity clock_day uid body_attempts body_won body_date table =
     (Responded (res_status_json 400
        (Object [(''error'', Str (ascii ''Already submitted for today''))])), table)"
proof -
  from assms have "db_get_existing table uid (date_or body_date clock_day) \<noteq> None"
    by (simp add: db_get_existing_None)
  then show ?thesis
    by (simp add: post_submit_score_def Let_def)
qed

lemma post_submit_score_fresh:
  assumes "\<not> (\<exists>r \<in> set table. user_id r = uid \<and> date r = date_or body_date clock_day)"
  shows "post_submit_score text_affinity clock_day uid body_attempts body_won body_date table =
     (case bind_attempts text_affinity body_attempts of
        Inl e \<Rightarrow> (Threw e, table)
      | Inr stored \<Rightarrow>
          (Responded (res_json (Object [(''success'', Boolean True)])),
           table @ [\<lparr>user_id = uid, date = date_or body_date clock_day,
                     attempts = stored, won = (if truthy body_won then 1 else 0)\<rparr>]))"
proof -
  from assms have "db_get_existing table uid (date_or body_date clock_day) = None"
    by (simp add: db_get_existing_None)
  then show ?thesis
    by (simp add: post_submit_score_def Let_def db_run_insert_def split: sum.splits)
qed

text \<open>
  C6. For a submission as the interface declares it, with a number for \<open>attempts\<close>:
  if the table has a record for the user and the date of the submission (the \<open>date\<close>
  of the body, or the day of the clock), the handler answers with status 400 and
  \<open>Already submitted for today\<close> and leaves the table as it is, so the first record
  stays and no second one is inserted; if the table has none, exactly one record, of
  that user and date, is added at the end of the table and the response is
  \<open>{success: true}\<close>. The refusal of a duplicate holds whatever the body holds.
\<close>

theorem submit_score_first_writer_wins:
  "((\<exists>r \<in> set table. user_id r = uid \<and> date r = date_or body_date clock_day) \<longrightarrow>
      post_submit_score text_affinity clock_day uid body_attempts body_won body_date table =
        (Responded (res_status_json 400
           (Object [(''error'', Str (ascii ''Already submitted for today''))])), table))
   \<and> (\<not> (\<exists>r \<in> set table. user_id r = uid \<and> date r = date_or body_date clock_day) \<longrightarrow>
      (\<exists>row. post_submit_score text_affinity clock_day uid (Number (Finite q)) body_won body_date
                table =
          (Responded (res_json (Object [(''success'', Boolean True)])), table @ [row])
        \<and> user_id row = uid \<and> date row = date_or body_date clock_day))"
  by (simp add: post_submit_score_duplicate post_submit_score_fresh)

text \<open>Two submissions in a row: the first is stored, the second is refused and changes nothing.\<close>

theorem submit_score_first_writer_wins_witness:
  "fst (post_submit_score Str (ascii ''2024-01-01'') 7 (num 3) (Boolean True) None []) =
     Responded (res_json (Object [(''success'', Boolean True)]))
   \<and> length (snd (post_submit_score Str (ascii ''2024-01-01'') 7 (num 3) (Boolean True) None [])) = 1
   \<and> post_submit_score Str (ascii ''2024-01-01'') 7 (num 5) (Boolean False)
        (Some (ascii ''2024-01-01''))
        [\<lparr>user_id = 7, date = ascii ''2024-01-01'', attempts = num 3, won = 1\<rparr>] =
     (Responded (res_status_json 400
        (Object [(''error'', Str (ascii ''Already submitted for today''))])),
      [\<lparr>user_id = 7, date = ascii ''2024-01-01'', attempts = num 3, won = 1\<rparr>])"
proof -
  have ne: "ascii ''2024-01-01'' \<noteq> []" by (simp add: ascii_def)
  have first: "\<exists>row. post_submit_score Str (ascii ''2024-01-01'') 7 (num 3) (Boolean True) None [] =
       (Responded (res_json (Object [(''success'', Boolean True)])), [row])"
    using submit_score_first_writer_wins
      [of "[]" 7 None "ascii ''2024-01-01''" Str "num 5" "Boolean True" 3]
    by (auto simp add: num_def)
  have second: "post_submit_score Str (ascii ''2024-01-01'') 7 (num 5) (Boolean False)
        (Some (ascii ''2024-01-01''))
        [\<lparr>user_id = 7, date = ascii ''2024-01-01'', attempts = num 3, won = 1\<rparr>] =
     (Responded (res_status_json 400
        (Object [(''error'', Str (ascii ''Already submitted for today''))])),
      [\<lparr>user_id = 7, date = ascii ''2024-01-01'', attempts = num 3, won = 1\<rparr>])"
    using submit_score_first_writer_wins
      [of "[\<lparr>user_id = 7, date = ascii ''2024-01-01'', attempts = num 3, won = 1\<rparr>]" 7
          "Some (ascii ''2024-01-01'')" "ascii ''2024-01-01''" Str "num 5" "Boolean False" 3] ne
    by (simp add: date_or_def)
  from first second show ?thesis by auto
qed





section \<open>GET /leaderboard\<close>













end
